theory Spec2Isabelle
  imports Main "HOL-Library.AList"
begin

section \<open>CloudBridge terminal management: the client-side session multiplexer\<close>

text \<open>
  The development embeds the session handling of
  \<^verbatim>\<open>client/src/pages/terminal-management-page.tsx\<close> (the functions
  \<^verbatim>\<open>addOutput\<close>, \<^verbatim>\<open>connectToInstance\<close> with its four socket handlers,
  \<^verbatim>\<open>sendCommand\<close>, \<^verbatim>\<open>duplicateSession\<close>, \<^verbatim>\<open>exitTerminals\<close>, the
  unmount cleanup and the initialising effect).  \<^verbatim>\<open>sendCommand\<close> and \<^verbatim>\<open>addOutput\<close>
  of \<^verbatim>\<open>client/src/components/terminal/terminal-component.tsx\<close> have the same text, so
  one definition stands for both; of the component's \<^verbatim>\<open>connectToInstance\<close> the
  part up to the construction of the socket is embedded separately.

  React state and browser effects are made explicit:
  \<^item> the state variable \<^verbatim>\<open>terminalSessions\<close> is a JavaScript \<^verbatim>\<open>Map\<close>; it is an
    association list in insertion order, \<^verbatim>\<open>get\<close> is \<^const>\<open>map_of\<close> and \<^verbatim>\<open>set\<close> is
    \<^const>\<open>AList.update\<close> (replace in place, else append);
  \<^item> a function of the component reads \<^verbatim>\<open>terminalSessions\<close> from the render that
    created it, and writes through \<^verbatim>\<open>setTerminalSessions(prev => ...)\<close> to the latest
    state.  The value read is therefore a parameter of its own (named \<open>snap\<close>), the
    latest state is a field of the world;
  \<^item> every \<^verbatim>\<open>new WebSocket\<close>, \<^verbatim>\<open>ws.send\<close>, \<^verbatim>\<open>ws.close\<close>, \<^verbatim>\<open>toast\<close>,
    \<^verbatim>\<open>setTimeout\<close> and \<^verbatim>\<open>setLocation\<close> is logged in the world, in call order;
  \<^item> what the code reads from the browser (the clock, \<^verbatim>\<open>window.location\<close>, whether
    the \<^verbatim>\<open>WebSocket\<close> constructor throws) is the record \<open>env\<close>.
\<close>

subsection \<open>Data model\<close>

text \<open>
  \<^verbatim>\<open>interface EC2Instance\<close>.  The inventory is read as \<^verbatim>\<open>any[]\<close>, and the code
  itself provides for a missing \<^verbatim>\<open>credentialId\<close>, so that field is optional.
\<close>

record EC2Instance =
  ec2_instanceId :: string
  name :: string
  privateIp :: string
  publicIp :: string
  state :: string
  instanceType :: string
  region :: string
  keyName :: string
  credentialId :: "int option"

text \<open>
  \<^verbatim>\<open>interface TerminalOutput\<close>.  The type tag is one of \<^verbatim>\<open>"input"\<close>, \<^verbatim>\<open>"output"\<close>,
  \<^verbatim>\<open>"error"\<close>, \<^verbatim>\<open>"system"\<close> for the frames the client makes itself, and whatever
  string the server sent otherwise; the content of a server frame may be undefined.
\<close>

record TerminalOutput =
  timestamp :: string
  otype :: string
  content :: "string option"
  out_instanceId :: string

text \<open>\<^verbatim>\<open>interface TerminalSession\<close>; a \<^verbatim>\<open>WebSocket\<close> is its index in the list of sockets
  constructed so far, \<^verbatim>\<open>null\<close> is \<open>None\<close>.\<close>

record TerminalSession =
  instanceId :: string
  inst :: EC2Instance
  isConnected :: bool
  output_log :: "TerminalOutput list"
  currentCommand :: string
  ws :: "nat option"
  isSelected :: bool

type_synonym sessions = "(string \<times> TerminalSession) list"

text \<open>The two objects that are sent with \<^verbatim>\<open>JSON.stringify\<close>.\<close>

datatype message =
  Connect (m_host: string) (m_username: string) (m_keyName: string) (m_region: string)
          (m_credentialId: int) (m_instanceId: string)
| Command (m_command: string) (m_instanceId: string)

text \<open>An incoming frame after \<^verbatim>\<open>JSON.parse\<close>: an object whose four fields, where present,
  are strings.\<close>

record frame =
  f_instanceId :: "string option"
  f_type :: "string option"
  f_message :: "string option"
  f_data :: "string option"

record toast =
  title :: string
  description :: string
  destructive :: bool

text \<open>A constructed socket remembers what its handlers closed over.\<close>

record WebSocket =
  url :: string
  h_instanceId :: string
  h_session :: TerminalSession
  h_credentialId :: int

record env =
  location_protocol :: string
  location_host :: string
  ctor_throws :: "string option"
  localeTime :: string
  now :: nat

record world =
  terminalSessions :: sessions
  sockets :: "WebSocket list"
  sent :: "(nat \<times> message) list"
  closes :: "nat list"
  toasts :: "toast list"
  timers :: "(sessions \<times> string) list"
  location :: string

subsection \<open>JavaScript primitives\<close>

text \<open>\<^verbatim>\<open>a || b\<close> on strings that may be undefined: the empty string is falsy.\<close>

fun or_string :: "string option \<Rightarrow> string option \<Rightarrow> string option" where
  "or_string (Some a) b = (if a = [] then b else Some a)"
| "or_string None b = b"

text \<open>\<^verbatim>\<open>a || d\<close> with a string literal \<open>d\<close> on the right.\<close>

fun or_default :: "string option \<Rightarrow> string \<Rightarrow> string" where
  "or_default (Some a) d = (if a = [] then d else a)"
| "or_default None d = d"

text \<open>\<^verbatim>\<open>n || d\<close> on a number that may be undefined: zero is falsy.\<close>

fun or_number :: "int option \<Rightarrow> int \<Rightarrow> int" where
  "or_number (Some n) d = (if n = 0 then d else n)"
| "or_number None d = d"

text \<open>\<^verbatim>\<open>s.split(',')\<close>: the empty string gives one empty piece.\<close>

fun split_comma :: "string \<Rightarrow> string list" where
  "split_comma [] = [[]]"
| "split_comma (c # cs) =
     (if c = CHR '','' then [] # split_comma cs
      else (case split_comma cs of
              [] \<Rightarrow> [[c]]
            | p # ps \<Rightarrow> (c # p) # ps))"

text \<open>The decimal text of a non-negative integer, as a template literal prints it.\<close>

definition digit :: "nat \<Rightarrow> char" where
  "digit d = ''0123456789'' ! d"

fun string_of_nat :: "nat \<Rightarrow> string" where
  "string_of_nat n =
     (if n < 10 then [digit n] else string_of_nat (n div 10) @ [digit (n mod 10)])"

subsection \<open>State updates\<close>

definition setTerminalSessions :: "(sessions \<Rightarrow> sessions) \<Rightarrow> world \<Rightarrow> world" where
  "setTerminalSessions f w = w\<lparr>terminalSessions := f (terminalSessions w)\<rparr>"

definition add_toast :: "string \<Rightarrow> string \<Rightarrow> bool \<Rightarrow> world \<Rightarrow> world" where
  "add_toast t d v w = w\<lparr>toasts := toasts w @ [\<lparr>title = t, description = d, destructive = v\<rparr>]\<rparr>"

definition ws_send :: "nat \<Rightarrow> message \<Rightarrow> world \<Rightarrow> world" where
  "ws_send k m w = w\<lparr>sent := sent w @ [(k, m)]\<rparr>"

definition ws_close :: "nat \<Rightarrow> world \<Rightarrow> world" where
  "ws_close k w = w\<lparr>closes := closes w @ [k]\<rparr>"

text \<open>The updater of \<^verbatim>\<open>addOutput\<close>, and \<^verbatim>\<open>addOutput\<close> itself.\<close>

definition addOutput_upd :: "env \<Rightarrow> string \<Rightarrow> string \<Rightarrow> string option \<Rightarrow> sessions \<Rightarrow> sessions" where
  "addOutput_upd e i ty c prev =
     (case map_of prev i of
        Some session \<Rightarrow>
          AList.update i
            (session\<lparr>output_log := output_log session @
               [\<lparr>timestamp = localeTime e, otype = ty, content = c, out_instanceId = i\<rparr>]\<rparr>)
            prev
      | None \<Rightarrow> prev)"

definition addOutput :: "env \<Rightarrow> string \<Rightarrow> string \<Rightarrow> string option \<Rightarrow> world \<Rightarrow> world" where
  "addOutput e i ty c w = setTerminalSessions (addOutput_upd e i ty c) w"

text \<open>The updater shared by \<^verbatim>\<open>onerror\<close> and \<^verbatim>\<open>onclose\<close>.\<close>

definition disconnect_upd :: "string \<Rightarrow> sessions \<Rightarrow> sessions" where
  "disconnect_upd i prev =
     (case map_of prev i of
        Some currentSession \<Rightarrow>
          AList.update i (currentSession\<lparr>isConnected := False, ws := None\<rparr>) prev
      | None \<Rightarrow> prev)"

subsection \<open>connectToInstance and its handlers\<close>

definition wsUrl :: "env \<Rightarrow> string" where
  "wsUrl e =
     (if location_protocol e = ''https:'' then ''wss:'' else ''ws:'')
       @ ''//'' @ location_host e @ ''/ssh-ws''"

definition onopen :: "env \<Rightarrow> nat \<Rightarrow> string \<Rightarrow> TerminalSession \<Rightarrow> int \<Rightarrow> world \<Rightarrow> world" where
  "onopen e websocket i session cred w =
     (let w1 = setTerminalSessions (\<lambda>prev.
                 case map_of prev i of
                   Some currentSession \<Rightarrow>
                     AList.update i (currentSession\<lparr>ws := Some websocket, isConnected := True\<rparr>) prev
                 | None \<Rightarrow> prev) w;
          w2 = addOutput e i ''system''
                 (Some (''Connected to '' @ name (inst session) @ '' (''
                          @ privateIp (inst session) @ '')'')) w1
      in ws_send websocket
           (Connect (privateIp (inst session)) ''ec2-user'' (keyName (inst session))
                    (region (inst session)) cred i) w2)"

text \<open>\<open>None\<close> stands for event data on which \<^verbatim>\<open>JSON.parse\<close> throws: the handler ends
  there.\<close>

definition onmessage :: "env \<Rightarrow> string \<Rightarrow> frame option \<Rightarrow> world \<Rightarrow> world" where
  "onmessage e i parsed w =
     (case parsed of
        None \<Rightarrow> w
      | Some data \<Rightarrow>
          if f_instanceId data = Some i
          then addOutput e i (or_default (f_type data) ''output'')
                 (or_string (f_message data) (f_data data)) w
          else w)"

definition onerror :: "env \<Rightarrow> string \<Rightarrow> world \<Rightarrow> world" where
  "onerror e i w =
     setTerminalSessions (disconnect_upd i)
       (addOutput e i ''error'' (Some ''WebSocket connection error'') w)"

definition onclose :: "env \<Rightarrow> string \<Rightarrow> world \<Rightarrow> world" where
  "onclose e i w =
     setTerminalSessions (disconnect_upd i)
       (addOutput e i ''system'' (Some ''Connection closed'') w)"

definition connectToInstance :: "env \<Rightarrow> sessions \<Rightarrow> string \<Rightarrow> world \<Rightarrow> world" where
  "connectToInstance e snap i w =
     (case map_of snap i of
        None \<Rightarrow> add_toast ''Connection error'' ''Terminal session not found'' True w
      | Some session \<Rightarrow>
          (let cred = or_number (credentialId (inst session)) 1 in
           case ctor_throws e of
             None \<Rightarrow>
               w\<lparr>sockets := sockets w @
                    [\<lparr>url = wsUrl e, h_instanceId = i, h_session = session,
                      h_credentialId = cred\<rparr>]\<rparr>
           | Some error \<Rightarrow>
               addOutput e i ''error'' (Some (''Failed to connect: '' @ error)) w))"

text \<open>The browser raising an event on socket \<open>k\<close> runs the handler that
  \<^verbatim>\<open>connectToInstance\<close> installed on it.\<close>

datatype event = Open | Message "frame option" | Error | Close

definition fire :: "env \<Rightarrow> nat \<Rightarrow> event \<Rightarrow> world \<Rightarrow> world" where
  "fire e k ev w =
     (if k < length (sockets w)
      then (let b = sockets w ! k in
            case ev of
              Open \<Rightarrow> onopen e k (h_instanceId b) (h_session b) (h_credentialId b) w
            | Message d \<Rightarrow> onmessage e (h_instanceId b) d w
            | Error \<Rightarrow> onerror e (h_instanceId b) w
            | Close \<Rightarrow> onclose e (h_instanceId b) w)
      else w)"

subsection \<open>sendCommand\<close>

definition sendCommand :: "env \<Rightarrow> sessions \<Rightarrow> string \<Rightarrow> string \<Rightarrow> world \<Rightarrow> world" where
  "sendCommand e snap i command w =
     (case map_of snap i of
        None \<Rightarrow> w
      | Some session \<Rightarrow>
          (case ws session of
             None \<Rightarrow> w
           | Some sock \<Rightarrow>
               if isConnected session
               then (let w1 = addOutput e i ''input'' (Some (''$ '' @ command)) w;
                         w2 = ws_send sock (Command command i) w1
                     in setTerminalSessions (\<lambda>prev.
                          case map_of prev i of
                            Some currentSession \<Rightarrow>
                              AList.update i (currentSession\<lparr>currentCommand := []\<rparr>) prev
                          | None \<Rightarrow> prev) w2)
               else w))"

subsection \<open>duplicateSession\<close>

definition duplicate_id :: "string \<Rightarrow> nat \<Rightarrow> string" where
  "duplicate_id i t = i @ ''_duplicate_'' @ string_of_nat t"

definition duplicateSession :: "env \<Rightarrow> sessions \<Rightarrow> string \<Rightarrow> world \<Rightarrow> world" where
  "duplicateSession e snap i w =
     (case map_of snap i of
        None \<Rightarrow> w
      | Some session \<Rightarrow>
          (let newInstanceId = duplicate_id i (now e);
               newSession = session\<lparr>instanceId := newInstanceId, isConnected := False,
                                     output_log := [], currentCommand := [], ws := None,
                                     isSelected := False\<rparr>;
               w1 = setTerminalSessions (AList.update newInstanceId newSession) w;
               w2 = w1\<lparr>timers := timers w1 @ [(snap, newInstanceId)]\<rparr>
           in add_toast ''Session duplicated''
                (''Created duplicate session for '' @ name (inst session)) False w2))"

text \<open>A timer set by \<^verbatim>\<open>setTimeout(() => connectToInstance(id), 500)\<close> calls the
  \<^verbatim>\<open>connectToInstance\<close> of the render that set it.\<close>

definition runTimer :: "env \<Rightarrow> world \<Rightarrow> world" where
  "runTimer e w =
     (case timers w of
        [] \<Rightarrow> w
      | (snap, i) # rest \<Rightarrow> connectToInstance e snap i (w\<lparr>timers := rest\<rparr>))"

subsection \<open>Closing\<close>

text \<open>\<^verbatim>\<open>terminalSessions.forEach(session => { if (session.ws) session.ws.close(); })\<close>\<close>

fun closeEach :: "sessions \<Rightarrow> world \<Rightarrow> world" where
  "closeEach [] w = w"
| "closeEach ((k, session) # rest) w =
     closeEach rest (case ws session of Some sock \<Rightarrow> ws_close sock w | None \<Rightarrow> w)"

definition exitTerminals :: "sessions \<Rightarrow> world \<Rightarrow> world" where
  "exitTerminals snap w =
     add_toast ''Terminals closed'' ''All terminal sessions have been closed'' False
       ((closeEach snap w)\<lparr>location := ''/''\<rparr>)"

text \<open>The cleanup returned by the effect with the empty dependency list.\<close>

definition unmountCleanup :: "sessions \<Rightarrow> world \<Rightarrow> world" where
  "unmountCleanup snap w = closeEach snap w"

subsection \<open>The initialising effect\<close>

definition newSession :: "EC2Instance \<Rightarrow> TerminalSession" where
  "newSession instance =
     \<lparr>instanceId = ec2_instanceId instance, inst = instance, isConnected = False,
      output_log = [], currentCommand = [], ws = None, isSelected = False\<rparr>"

fun setEach :: "EC2Instance list \<Rightarrow> sessions \<Rightarrow> sessions" where
  "setEach [] newSessions = newSessions"
| "setEach (instance # rest) newSessions =
     setEach rest (AList.update (ec2_instanceId instance) (newSession instance) newSessions)"

text \<open>\<open>param\<close> is the value of \<^verbatim>\<open>params.get('instances')\<close>, \<open>None\<close> for \<^verbatim>\<open>null\<close>.\<close>

definition initEffect :: "sessions \<Rightarrow> string option \<Rightarrow> EC2Instance list \<Rightarrow> world \<Rightarrow> world" where
  "initEffect snap param allInstances w =
     (let instanceIds = (case param of None \<Rightarrow> [] | Some s \<Rightarrow> split_comma s) in
      if length instanceIds > 0 \<and> length allInstances > 0
      then (let selectedInstances =
                  filter (\<lambda>instance. ec2_instanceId instance \<in> set instanceIds) allInstances;
                w1 = setTerminalSessions (\<lambda>_. setEach selectedInstances []) w
            in w1\<lparr>timers := timers w1 @
                   map (\<lambda>instance. (snap, ec2_instanceId instance)) selectedInstances\<rparr>)
      else w)"

subsection \<open>connectToInstance of the terminal component\<close>

text \<open>
  In \<^verbatim>\<open>terminal-component.tsx\<close> the credential is a property of the component, the
  call is refused when it is missing or zero, and the URL has no path.  The handlers it
  installs differ from those above only in the text of the first system frame and in one
  more toast; they are not repeated.
\<close>

definition component_wsUrl :: "env \<Rightarrow> string" where
  "component_wsUrl e =
     (if location_protocol e = ''https:'' then ''wss:'' else ''ws:'')
       @ ''//'' @ location_host e"

definition component_connectToInstance ::
    "env \<Rightarrow> int option \<Rightarrow> sessions \<Rightarrow> string \<Rightarrow> world \<Rightarrow> world" where
  "component_connectToInstance e credentialId_prop snap i w =
     (case map_of snap i of
        None \<Rightarrow> add_toast ''Connection error'' ''Missing session or credentials'' True w
      | Some session \<Rightarrow>
          if or_number credentialId_prop 0 = 0
          then add_toast ''Connection error'' ''Missing session or credentials'' True w
          else (case ctor_throws e of
                  None \<Rightarrow>
                    w\<lparr>sockets := sockets w @
                         [\<lparr>url = component_wsUrl e, h_instanceId = i, h_session = session,
                           h_credentialId = or_number credentialId_prop 0\<rparr>]\<rparr>
                | Some error \<Rightarrow>
                    addOutput e i ''error'' (Some (''Failed to connect: '' @ error)) w))"

subsection \<open>Auxiliary notions for the proofs\<close>

text \<open>Reading a decimal text back, and the characters \<open>0\<close> to \<open>9\<close>.\<close>

definition is_digit :: "char \<Rightarrow> bool" where
  "is_digit c = (48 \<le> (of_char c :: nat) \<and> (of_char c :: nat) < 58)"

definition nat_of_string :: "string \<Rightarrow> nat" where
  "nat_of_string s = foldl (\<lambda>a c. 10 * a + (of_char c - 48)) 0 s"

subsection \<open>Example states\<close>

text \<open>
  Two inventory entries, the first without a credential; a view holding one fresh
  session for each (\<open>w0\<close>); the same view after both sockets were constructed and
  opened (\<open>w_open\<close>), after the second one was closed again (\<open>w_closed\<close>), after the
  first session was duplicated (\<open>w_dup\<close>), and after that duplicate was connected
  (\<open>w_dup_open\<close>); a server frame for the first session.
\<close>

definition inst1 :: EC2Instance where
  "inst1 = \<lparr>ec2_instanceId = ''i-1'', name = ''web'', privateIp = ''10.0.0.1'', publicIp = [],
            state = ''running'', instanceType = ''t3.micro'', region = ''us-east-1'',
            keyName = ''key-a'', credentialId = None\<rparr>"

definition inst2 :: EC2Instance where
  "inst2 = \<lparr>ec2_instanceId = ''i-2'', name = ''db'', privateIp = ''10.0.0.2'', publicIp = [],
            state = ''running'', instanceType = ''t3.micro'', region = ''eu-west-1'',
            keyName = ''key-b'', credentialId = Some 7\<rparr>"

definition e0 :: env where
  "e0 = \<lparr>location_protocol = ''https:'', location_host = ''console.example'',
         ctor_throws = None, localeTime = ''10:00:00'', now = 7\<rparr>"

definition w0 :: world where
  "w0 = \<lparr>terminalSessions = [(''i-1'', newSession inst1), (''i-2'', newSession inst2)],
         sockets = [], sent = [], closes = [], toasts = [], timers = [],
         location = ''/terminal-management''\<rparr>"

definition w_open :: world where
  "w_open = fire e0 1 Open (connectToInstance e0 (terminalSessions w0) ''i-2''
              (fire e0 0 Open (connectToInstance e0 (terminalSessions w0) ''i-1'' w0)))"

definition w_closed :: world where
  "w_closed = fire e0 1 Close w_open"

definition w_dup :: world where
  "w_dup = duplicateSession e0 (terminalSessions w0) ''i-1'' w0"

definition w_dup_open :: world where
  "w_dup_open =
     fire e0 0 Open (connectToInstance e0 (terminalSessions w_dup) ''i-1_duplicate_7'' w_dup)"

definition f0 :: frame where
  "f0 = \<lparr>f_instanceId = Some ''i-1'', f_type = None, f_message = Some [],
         f_data = Some ''total 0''\<rparr>"

section \<open>Lemmas\<close>

declare string_of_nat.simps [simp del]

lemmas world_ops = setTerminalSessions_def add_toast_def ws_send_def ws_close_def addOutput_def

lemmas example_data = inst1_def inst2_def e0_def w0_def newSession_def

subsection \<open>The registry\<close>

lemma update_keys_present:
  "map_of al k = Some v \<Longrightarrow> map fst (AList.update k v' al) = map fst al"
  by (auto simp: AList.update_keys dest: map_of_SomeD intro: rev_image_eqI)

lemma update_fresh: "k \<notin> fst ` set m \<Longrightarrow> AList.update k v m = m @ [(k, v)]"
  by (induction m) auto

lemma addOutput_upd_other:
  "j \<noteq> i \<Longrightarrow> map_of (addOutput_upd e i ty c prev) j = map_of prev j"
  by (simp add: addOutput_upd_def AList.update_conv' split: option.splits)

lemma addOutput_upd_same:
  "map_of prev i = Some s \<Longrightarrow>
   map_of (addOutput_upd e i ty c prev) i =
     Some (s\<lparr>output_log := output_log s @
       [\<lparr>timestamp = localeTime e, otype = ty, content = c, out_instanceId = i\<rparr>]\<rparr>)"
  by (simp add: addOutput_upd_def AList.update_conv')

lemma addOutput_upd_absent:
  "map_of prev i = None \<Longrightarrow> addOutput_upd e i ty c prev = prev"
  by (simp add: addOutput_upd_def)

lemma addOutput_upd_keys:
  "map fst (addOutput_upd e i ty c prev) = map fst prev"
  by (simp add: addOutput_upd_def update_keys_present split: option.splits)

lemma disconnect_upd_other:
  "j \<noteq> i \<Longrightarrow> map_of (disconnect_upd i prev) j = map_of prev j"
  by (simp add: disconnect_upd_def AList.update_conv' split: option.splits)

lemma disconnect_upd_same:
  "map_of prev i = Some s \<Longrightarrow>
   map_of (disconnect_upd i prev) i = Some (s\<lparr>isConnected := False, ws := None\<rparr>)"
  by (simp add: disconnect_upd_def AList.update_conv')

lemma disconnect_upd_keys:
  "map fst (disconnect_upd i prev) = map fst prev"
  by (simp add: disconnect_upd_def update_keys_present split: option.splits)

subsection \<open>Decimal texts\<close>

lemma of_char_digit: "d < 10 \<Longrightarrow> (of_char (digit d) :: nat) = 48 + d"
proof -
  assume "d < 10"
  then have "d \<in> {0, 1, 2, 3, 4, 5, 6, 7, 8, 9}" by auto
  then show ?thesis by (auto simp: digit_def)
qed

lemma is_digit_digit: "d < 10 \<Longrightarrow> is_digit (digit d)"
  by (simp add: is_digit_def of_char_digit)

lemma string_of_nat_digits: "c \<in> set (string_of_nat n) \<Longrightarrow> is_digit c"
proof (induction n arbitrary: c rule: string_of_nat.induct)
  case (1 n)
  show ?case
  proof (cases "n < 10")
    case True
    with "1.prems" show ?thesis
      by (simp add: string_of_nat.simps [of n] is_digit_digit)
  next
    case False
    with "1.prems" "1.IH" show ?thesis
      by (auto simp: string_of_nat.simps [of n] is_digit_digit)
  qed
qed

lemma nat_of_string_of_nat: "nat_of_string (string_of_nat n) = n"
proof (induction n rule: string_of_nat.induct)
  case (1 n)
  show ?case
  proof (cases "n < 10")
    case True
    then show ?thesis
      by (simp add: string_of_nat.simps [of n] nat_of_string_def of_char_digit)
  next
    case False
    with "1.IH" have "nat_of_string (string_of_nat (n div 10)) = n div 10" by simp
    with False show ?thesis
      by (simp add: string_of_nat.simps [of n] nat_of_string_def of_char_digit)
  qed
qed

lemma string_of_nat_inj: "string_of_nat t = string_of_nat u \<Longrightarrow> t = u"
  by (metis nat_of_string_of_nat)

text \<open>A text that ends in a separator followed by digits splits in one way only.\<close>

lemma digit_suffix_unique:
  assumes "\<forall>c\<in>set d. is_digit c" and "\<forall>c\<in>set e. is_digit c" and "\<not> is_digit p"
    and "xs @ p # d = ys @ p # e"
  shows "xs = ys \<and> d = e"
  using assms by (auto simp: append_eq_append_conv2 Cons_eq_append_conv append_eq_Cons_conv)

lemma duplicate_id_inj:
  "duplicate_id a t = duplicate_id b u \<longleftrightarrow> a = b \<and> t = u"
proof
  assume eq: "duplicate_id a t = duplicate_id b u"
  have nd: "\<not> is_digit (CHR ''_'')" by (simp add: is_digit_def)
  from eq have "(a @ ''_duplicate'') @ CHR ''_'' # string_of_nat t
              = (b @ ''_duplicate'') @ CHR ''_'' # string_of_nat u"
    by (simp add: duplicate_id_def)
  from digit_suffix_unique [OF _ _ nd this]
  have "a @ ''_duplicate'' = b @ ''_duplicate'' \<and> string_of_nat t = string_of_nat u"
    by (simp add: string_of_nat_digits)
  then show "a = b \<and> t = u" by (simp add: string_of_nat_inj)
qed simp

lemma duplicate_id_neq: "duplicate_id a t \<noteq> a"
  by (simp add: duplicate_id_def)

subsection \<open>Loops\<close>

lemma closes_closeEach:
  "closes (closeEach snap w) = closes w @ List.map_filter (\<lambda>p. ws (snd p)) snap"
  by (induction snap w rule: closeEach.induct)
     (auto simp: ws_close_def List.map_filter_simps split: option.splits)

lemma closeEach_frame:
  "terminalSessions (closeEach snap w) = terminalSessions w \<and>
   sockets (closeEach snap w) = sockets w \<and> sent (closeEach snap w) = sent w \<and>
   toasts (closeEach snap w) = toasts w \<and> timers (closeEach snap w) = timers w"
  by (induction snap w rule: closeEach.induct) (auto simp: ws_close_def split: option.splits)

lemma distinct_setEach:
  "distinct (map fst m) \<Longrightarrow> distinct (map fst (setEach xs m))"
  by (induction xs m rule: setEach.induct) (simp_all add: AList.distinct_update)

lemma keys_setEach:
  "fst ` set (setEach xs m) = ec2_instanceId ` set xs \<union> fst ` set m"
  by (induction xs m rule: setEach.induct) (auto simp: AList.dom_update)

lemma setEach_distinct_ids:
  "distinct (map fst m @ map ec2_instanceId xs) \<Longrightarrow>
   setEach xs m = m @ map (\<lambda>i. (ec2_instanceId i, newSession i)) xs"
proof (induction xs m rule: setEach.induct)
  case (1 m)
  then show ?case by simp
next
  case (2 i rest m)
  from "2.prems" have fresh: "ec2_instanceId i \<notin> fst ` set m" by auto
  from "2.prems" have "distinct (map fst (m @ [(ec2_instanceId i, newSession i)])
                          @ map ec2_instanceId rest)" by auto
  with "2.IH" fresh show ?case by (simp add: update_fresh)
qed

lemma map_of_setEach:
  "map_of (setEach xs m) k = Some s \<Longrightarrow>
   (\<exists>i \<in> set xs. ec2_instanceId i = k \<and> s = newSession i) \<or> map_of m k = Some s"
  by (induction xs m arbitrary: s rule: setEach.induct)
     (auto simp: AList.update_conv' split: if_splits)

lemma split_comma_nonempty: "split_comma s \<noteq> []"
  by (induction s) (auto split: list.splits)

subsection \<open>A call that reads a map without the session\<close>

text \<open>
  \<^verbatim>\<open>connectToInstance\<close> looks the session up in the map of the render that created the
  function.  When that map has no entry for the identifier, as the map of the render
  before the entry was added, the call ends with a toast and constructs no socket.
\<close>

lemma connectToInstance_unknown_session:
  "map_of snap i = None \<Longrightarrow>
   connectToInstance e snap i w =
     add_toast ''Connection error'' ''Terminal session not found'' True w"
  by (simp add: connectToInstance_def)

lemma runTimer_unknown_session:
  "timers w = (snap, i) # rest \<Longrightarrow> map_of snap i = None \<Longrightarrow>
   sockets (runTimer e w) = sockets w \<and> sent (runTimer e w) = sent w \<and>
   terminalSessions (runTimer e w) = terminalSessions w"
  by (simp add: runTimer_def connectToInstance_unknown_session add_toast_def)

text \<open>
  The unmount cleanup belongs to an effect with an empty dependency list, so it is the
  function of the first render, whose map is the initial \<^verbatim>\<open>new Map()\<close>.  For that map
  it closes nothing.
\<close>

lemma unmountCleanup_initial_map: "unmountCleanup [] w = w"
  by (simp add: unmountCleanup_def)

subsection \<open>The example view with both sessions open\<close>

lemma w_open_eval:
  "w_open =
     \<lparr>terminalSessions =
        [(''i-1'', \<lparr>instanceId = ''i-1'', inst = inst1, isConnected = True,
                    output_log = [\<lparr>timestamp = ''10:00:00'', otype = ''system'',
                                   content = Some ''Connected to web (10.0.0.1)'',
                                   out_instanceId = ''i-1''\<rparr>],
                    currentCommand = [], ws = Some 0, isSelected = False\<rparr>),
         (''i-2'', \<lparr>instanceId = ''i-2'', inst = inst2, isConnected = True,
                    output_log = [\<lparr>timestamp = ''10:00:00'', otype = ''system'',
                                   content = Some ''Connected to db (10.0.0.2)'',
                                   out_instanceId = ''i-2''\<rparr>],
                    currentCommand = [], ws = Some 1, isSelected = False\<rparr>)],
      sockets =
        [\<lparr>url = ''wss://console.example/ssh-ws'', h_instanceId = ''i-1'',
          h_session = newSession inst1, h_credentialId = 1\<rparr>,
         \<lparr>url = ''wss://console.example/ssh-ws'', h_instanceId = ''i-2'',
          h_session = newSession inst2, h_credentialId = 7\<rparr>],
      sent =
        [(0, Connect ''10.0.0.1'' ''ec2-user'' ''key-a'' ''us-east-1'' 1 ''i-1''),
         (1, Connect ''10.0.0.2'' ''ec2-user'' ''key-b'' ''eu-west-1'' 7 ''i-2'')],
      closes = [], toasts = [], timers = [], location = ''/terminal-management''\<rparr>"
  by (simp add: w_open_def example_data connectToInstance_def fire_def onopen_def world_ops
        addOutput_upd_def wsUrl_def Let_def)

subsection \<open>The example view with a connected duplicate\<close>

lemma w_dup_open_eval:
  "w_dup_open =
     \<lparr>terminalSessions =
        [(''i-1'', newSession inst1), (''i-2'', newSession inst2),
         (''i-1_duplicate_7'',
          \<lparr>instanceId = ''i-1_duplicate_7'', inst = inst1, isConnected = True,
            output_log = [\<lparr>timestamp = ''10:00:00'', otype = ''system'',
                           content = Some ''Connected to web (10.0.0.1)'',
                           out_instanceId = ''i-1_duplicate_7''\<rparr>],
            currentCommand = [], ws = Some 0, isSelected = False\<rparr>)],
      sockets =
        [\<lparr>url = ''wss://console.example/ssh-ws'', h_instanceId = ''i-1_duplicate_7'',
          h_session = \<lparr>instanceId = ''i-1_duplicate_7'', inst = inst1, isConnected = False,
                        output_log = [], currentCommand = [], ws = None, isSelected = False\<rparr>,
          h_credentialId = 1\<rparr>],
      sent =
        [(0, Connect ''10.0.0.1'' ''ec2-user'' ''key-a'' ''us-east-1'' 1 ''i-1_duplicate_7'')],
      closes = [],
      toasts = [\<lparr>title = ''Session duplicated'',
                 description = ''Created duplicate session for web'', destructive = False\<rparr>],
      timers = [(terminalSessions w0, ''i-1_duplicate_7'')],
      location = ''/terminal-management''\<rparr>"
  by (simp add: w_dup_open_def w_dup_def example_data duplicateSession_def duplicate_id_def
        string_of_nat.simps digit_def connectToInstance_def fire_def onopen_def world_ops
        addOutput_upd_def wsUrl_def Let_def)

section \<open>The properties\<close>

subsection \<open>C1: which credential a connection uses\<close>

text \<open>
  C1 (as amended).  When \<^verbatim>\<open>connectToInstance\<close> finds the session and the socket opens,
  exactly one connect request is sent on the new socket.  Its host, key name and region
  are those of the session's instance; its credential is the instance's
  \<^verbatim>\<open>credentialId\<close> when that is present and not zero, and the constant 1 otherwise.
\<close>

theorem connect_request_credential:
  assumes "map_of snap x = Some s" and "ctor_throws e = None"
  shows "sent (fire e' (length (sockets w)) Open (connectToInstance e snap x w)) =
           sent w @ [(length (sockets w),
                      Connect (privateIp (inst s)) ''ec2-user'' (keyName (inst s)) (region (inst s))
                        (case credentialId (inst s) of
                           None \<Rightarrow> 1
                         | Some c \<Rightarrow> if c = 0 then 1 else c) x)]"
  using assms
  by (simp add: connectToInstance_def fire_def onopen_def world_ops Let_def split: option.splits)

theorem connect_request_credential_witness:
  "map_of (terminalSessions w0) ''i-2'' = Some (newSession inst2) \<and> ctor_throws e0 = None \<and>
   sent (fire e0 (length (sockets w0)) Open (connectToInstance e0 (terminalSessions w0) ''i-2'' w0)) =
     [(0, Connect ''10.0.0.2'' ''ec2-user'' ''key-b'' ''eu-west-1'' 7 ''i-2'')]"
proof -
  have h1: "map_of (terminalSessions w0) ''i-2'' = Some (newSession inst2)"
    by (simp add: w0_def)
  have h2: "ctor_throws e0 = None" by (simp add: e0_def)
  from connect_request_credential [OF h1 h2, of e0 w0] h1 h2 show ?thesis
    by (simp add: w0_def inst2_def newSession_def)
qed

text \<open>
  C1 as stated fails: the session of the first example instance carries no credential,
  and its connect request carries the credential 1.
\<close>

theorem connect_default_credential_counterexample:
  "map_of (terminalSessions w0) ''i-1'' = Some (newSession inst1) \<and>
   credentialId (inst (newSession inst1)) = None \<and>
   sent (fire e0 0 Open (connectToInstance e0 (terminalSessions w0) ''i-1'' w0)) =
     [(0, Connect ''10.0.0.1'' ''ec2-user'' ''key-a'' ''us-east-1'' 1 ''i-1'')]"
  by (simp add: example_data connectToInstance_def fire_def onopen_def world_ops
        addOutput_upd_def Let_def)

subsection \<open>C2: one socket for each connection\<close>

text \<open>
  C2 (as amended).  Every call of \<^verbatim>\<open>connectToInstance\<close> that finds its session, and
  whose constructor does not throw, constructs one new socket, bound to that session;
  when the socket opens it becomes the \<^verbatim>\<open>ws\<close> of that session and of no other.  The
  same holds for the construction in the terminal component when it is given a
  credential.
\<close>

theorem connect_constructs_own_socket:
  assumes "map_of snap x = Some s" and "ctor_throws e = None"
  shows "sockets (connectToInstance e snap x w) =
           sockets w @ [\<lparr>url = wsUrl e, h_instanceId = x, h_session = s,
                         h_credentialId = or_number (credentialId (inst s)) 1\<rparr>] \<and>
         (\<forall>cur. map_of (terminalSessions w) x = Some cur \<longrightarrow>
            map_option ws (map_of (terminalSessions
               (fire e' (length (sockets w)) Open (connectToInstance e snap x w))) x) =
              Some (Some (length (sockets w)))) \<and>
         (\<forall>y. y \<noteq> x \<longrightarrow>
            map_of (terminalSessions
               (fire e' (length (sockets w)) Open (connectToInstance e snap x w))) y =
              map_of (terminalSessions w) y) \<and>
         (\<forall>c. c \<noteq> 0 \<longrightarrow>
            sockets (component_connectToInstance e (Some c) snap x w) =
              sockets w @ [\<lparr>url = component_wsUrl e, h_instanceId = x, h_session = s,
                            h_credentialId = c\<rparr>])"
  using assms
  by (auto simp: connectToInstance_def component_connectToInstance_def fire_def onopen_def
        world_ops Let_def AList.update_conv' addOutput_upd_other addOutput_upd_same
        split: option.splits)

theorem connect_constructs_own_socket_witness:
  "map_of (terminalSessions w0) ''i-1'' = Some (newSession inst1) \<and> ctor_throws e0 = None \<and>
   length (sockets (connectToInstance e0 (terminalSessions w0) ''i-1'' w0)) = 1 \<and>
   map_option ws (map_of (terminalSessions
      (fire e0 0 Open (connectToInstance e0 (terminalSessions w0) ''i-1'' w0))) ''i-1'') = Some (Some 0) \<and>
   ''i-2'' \<noteq> ''i-1'' \<and>
   map_of (terminalSessions
      (fire e0 0 Open (connectToInstance e0 (terminalSessions w0) ''i-1'' w0))) ''i-2'' =
     map_of (terminalSessions w0) ''i-2'' \<and>
   (7::int) \<noteq> 0 \<and>
   length (sockets (component_connectToInstance e0 (Some 7) (terminalSessions w0) ''i-1'' w0)) = 1"
proof -
  have h1: "map_of (terminalSessions w0) ''i-1'' = Some (newSession inst1)"
    by (simp add: w0_def)
  have h2: "ctor_throws e0 = None" by (simp add: e0_def)
  have h3: "length (sockets w0) = 0" by (simp add: w0_def)
  from connect_constructs_own_socket [OF h1 h2, of w0 e0] h1 h2 h3 show ?thesis
    by simp
qed

text \<open>
  C2 as stated fails: with two sessions open in one view there are two sockets, and the
  two sessions hold different ones.
\<close>

theorem sessions_hold_different_sockets_counterexample:
  "map_option ws (map_of (terminalSessions w_open) ''i-1'') = Some (Some 0) \<and>
   map_option ws (map_of (terminalSessions w_open) ''i-2'') = Some (Some 1) \<and>
   map_option ws (map_of (terminalSessions w_open) ''i-1'') \<noteq>
     map_option ws (map_of (terminalSessions w_open) ''i-2'') \<and>
   length (sockets w_open) = 2"
  by (simp add: w_open_eval)

subsection \<open>C3: closing every socket\<close>

text \<open>
  C3 (as amended).  \<^verbatim>\<open>exitTerminals\<close> calls \<^verbatim>\<open>close\<close> once for every session of the map
  it reads that holds a socket, in the order of the map, and for no other; so with K
  sessions holding a socket there are exactly K calls.  It leaves the registry as it
  was and sets the location to the root.  The unmount cleanup makes the same calls for
  the map it reads.
\<close>

theorem exitTerminals_closes_each_socket:
  "closes (exitTerminals snap w) = closes w @ List.map_filter (\<lambda>p. ws (snd p)) snap \<and>
   length (List.map_filter (\<lambda>p. ws (snd p)) snap) =
     length (filter (\<lambda>p. ws (snd p) \<noteq> None) snap) \<and>
   terminalSessions (exitTerminals snap w) = terminalSessions w \<and>
   sent (exitTerminals snap w) = sent w \<and>
   location (exitTerminals snap w) = ''/'' \<and>
   closes (unmountCleanup snap w) = closes w @ List.map_filter (\<lambda>p. ws (snd p)) snap \<and>
   terminalSessions (unmountCleanup snap w) = terminalSessions w"
  by (simp add: exitTerminals_def unmountCleanup_def add_toast_def closes_closeEach
        closeEach_frame List.map_filter_def)

text \<open>
  C3 as stated fails in its second half: with two sessions open, both sockets are
  closed and the registry still has both entries.
\<close>

theorem exitTerminals_keeps_registry_counterexample:
  "closes (exitTerminals (terminalSessions w_open) w_open) = [0, 1] \<and>
   map fst (terminalSessions (exitTerminals (terminalSessions w_open) w_open)) = [''i-1'', ''i-2''] \<and>
   terminalSessions (exitTerminals (terminalSessions w_open) w_open) \<noteq> []"
  by (simp add: w_open_eval exitTerminals_def add_toast_def ws_close_def)

subsection \<open>C4: session identifiers\<close>

text \<open>
  C4 (as amended).  The identifier that \<^verbatim>\<open>duplicateSession\<close> makes from a session
  identifier and a clock reading differs from that session identifier, and two such
  identifiers are equal exactly when both the session identifiers and the clock readings
  (in milliseconds) are equal.  The new identifier is appended to the registry when it
  is not a key yet, and replaces the entry of that key otherwise; the keys of the
  registry stay pairwise distinct under \<^verbatim>\<open>duplicateSession\<close> and under the
  initialising effect.
\<close>

theorem duplicate_id_distinct:
  "(duplicate_id a t = duplicate_id b u \<longleftrightarrow> a = b \<and> t = u) \<and>
   duplicate_id a t \<noteq> a \<and>
   (\<forall>s. map_of snap a = Some s \<longrightarrow>
      map fst (terminalSessions (duplicateSession e snap a w)) =
        (if duplicate_id a (now e) \<in> set (map fst (terminalSessions w))
         then map fst (terminalSessions w)
         else map fst (terminalSessions w) @ [duplicate_id a (now e)])) \<and>
   (distinct (map fst (terminalSessions w)) \<longrightarrow>
      distinct (map fst (terminalSessions (duplicateSession e snap a w))) \<and>
      distinct (map fst (terminalSessions (initEffect snap param allInstances w))))"
  by (auto simp: duplicate_id_inj duplicate_id_neq duplicateSession_def initEffect_def
        world_ops Let_def AList.update_keys AList.distinct_update distinct_setEach
        split: option.splits)

theorem duplicate_id_distinct_witness:
  "duplicate_id ''i-1'' 7 \<noteq> duplicate_id ''i-1'' 8 \<and>
   duplicate_id ''i-1'' 7 \<noteq> ''i-1'' \<and>
   map_of (terminalSessions w0) ''i-1'' = Some (newSession inst1) \<and>
   map fst (terminalSessions (duplicateSession e0 (terminalSessions w0) ''i-1'' w0)) =
     [''i-1'', ''i-2'', ''i-1_duplicate_7''] \<and>
   distinct (map fst (terminalSessions w0)) \<and>
   distinct (map fst (terminalSessions (duplicateSession e0 (terminalSessions w0) ''i-1'' w0))) \<and>
   distinct (map fst (terminalSessions
      (initEffect (terminalSessions w0) (Some ''i-1,i-2'') [inst1, inst2] w0)))"
proof -
  have h1: "map_of (terminalSessions w0) ''i-1'' = Some (newSession inst1)"
    by (simp add: w0_def)
  have h2: "distinct (map fst (terminalSessions w0))" by (simp add: w0_def)
  have h3: "duplicate_id ''i-1'' (now e0) = ''i-1_duplicate_7''"
    by (simp add: duplicate_id_def e0_def string_of_nat.simps digit_def)
  have h4: "map fst (terminalSessions w0) = [''i-1'', ''i-2'']" by (simp add: w0_def)
  have h5: "now e0 = 7" by (simp add: e0_def)
  from duplicate_id_distinct
         [of "''i-1''" 7 "''i-1''" 8 "terminalSessions w0" e0 w0 "Some ''i-1,i-2''" "[inst1, inst2]"]
    h1 h2 h3 h4 h5
  show ?thesis by simp
qed

text \<open>
  C4 as stated fails: two duplications of the same session at the same clock reading
  yield the same identifier, and the registry has one entry for both.
\<close>

theorem duplicate_same_clock_counterexample:
  "map snd (timers (duplicateSession e0 (terminalSessions w_dup) ''i-1'' w_dup)) =
     [''i-1_duplicate_7'', ''i-1_duplicate_7''] \<and>
   map fst (terminalSessions (duplicateSession e0 (terminalSessions w_dup) ''i-1'' w_dup)) =
     [''i-1'', ''i-2'', ''i-1_duplicate_7'']"
  by (simp add: w_dup_def example_data duplicateSession_def duplicate_id_def
        setTerminalSessions_def add_toast_def Let_def string_of_nat.simps digit_def)

subsection \<open>C5: routing of incoming frames\<close>

text \<open>
  C5.  The message handler bound to session \<open>x\<close> changes no entry other than that of
  \<open>x\<close>; it changes the entry of \<open>x\<close> only for a frame whose \<^verbatim>\<open>instanceId\<close> is \<open>x\<close>; a
  frame with another identifier leaves the whole state as it was; and a frame for \<open>x\<close>
  is appended to the output log of \<open>x\<close>.
\<close>

theorem onmessage_routes_by_instanceId:
  "(\<forall>y. y \<noteq> x \<longrightarrow>
      map_of (terminalSessions (onmessage e x p w)) y = map_of (terminalSessions w) y) \<and>
   (map_of (terminalSessions (onmessage e x p w)) x \<noteq> map_of (terminalSessions w) x \<longrightarrow>
      (\<exists>d. p = Some d \<and> f_instanceId d = Some x)) \<and>
   (\<forall>d. p = Some d \<longrightarrow> f_instanceId d \<noteq> Some x \<longrightarrow> onmessage e x p w = w) \<and>
   (\<forall>d s. p = Some d \<longrightarrow> f_instanceId d = Some x \<longrightarrow> map_of (terminalSessions w) x = Some s \<longrightarrow>
      map_of (terminalSessions (onmessage e x p w)) x =
        Some (s\<lparr>output_log := output_log s @
                  [\<lparr>timestamp = localeTime e, otype = or_default (f_type d) ''output'',
                    content = or_string (f_message d) (f_data d), out_instanceId = x\<rparr>]\<rparr>))"
  by (auto simp: onmessage_def world_ops addOutput_upd_other addOutput_upd_same
           split: option.splits)

theorem onmessage_routes_by_instanceId_witness:
  "''i-2'' \<noteq> ''i-1'' \<and>
   map_of (terminalSessions (onmessage e0 ''i-1'' (Some f0) w0)) ''i-2'' =
     map_of (terminalSessions w0) ''i-2'' \<and>
   f_instanceId f0 = Some ''i-1'' \<and> f_instanceId f0 \<noteq> Some ''i-2'' \<and>
   onmessage e0 ''i-2'' (Some f0) w0 = w0 \<and>
   map_of (terminalSessions w0) ''i-1'' = Some (newSession inst1) \<and>
   map_of (terminalSessions (onmessage e0 ''i-1'' (Some f0) w0)) ''i-1'' \<noteq>
     map_of (terminalSessions w0) ''i-1'' \<and>
   map_option output_log (map_of (terminalSessions (onmessage e0 ''i-1'' (Some f0) w0)) ''i-1'') =
     Some [\<lparr>timestamp = ''10:00:00'', otype = ''output'', content = Some ''total 0'',
            out_instanceId = ''i-1''\<rparr>]"
proof -
  have h1: "map_of (terminalSessions w0) ''i-1'' = Some (newSession inst1)"
    by (simp add: w0_def)
  have h2: "f_instanceId f0 = Some ''i-1''" by (simp add: f0_def)
  have h3: "or_default (f_type f0) ''output'' = ''output'' \<and>
            or_string (f_message f0) (f_data f0) = Some ''total 0'' \<and>
            localeTime e0 = ''10:00:00''"
    by (simp add: f0_def e0_def)
  from onmessage_routes_by_instanceId [of "''i-1''" e0 "Some f0" w0]
       onmessage_routes_by_instanceId [of "''i-2''" e0 "Some f0" w0] h1 h2 h3
  show ?thesis by (simp add: newSession_def)
qed

subsection \<open>C6: a command for a session that is not connected\<close>

text \<open>
  C6 (as amended).  When the session that \<^verbatim>\<open>sendCommand\<close> reads is missing, has no
  socket or is not connected, the call returns without any effect: no message is sent,
  nothing is stored for later, no session changes, and no error is raised or shown.
\<close>

theorem sendCommand_not_connected_noop:
  assumes "map_option (\<lambda>s. ws s \<noteq> None \<and> isConnected s) (map_of snap x) \<noteq> Some True"
  shows "sendCommand e snap x c w = w"
  using assms by (auto simp: sendCommand_def split: option.splits)

theorem sendCommand_not_connected_noop_witness:
  "map_option (\<lambda>s. ws s \<noteq> None \<and> isConnected s) (map_of (terminalSessions w_closed) ''i-2'')
     \<noteq> Some True \<and>
   sendCommand e0 (terminalSessions w_closed) ''i-2'' ''ls'' w_closed = w_closed"
proof -
  have h: "map_option (\<lambda>s. ws s \<noteq> None \<and> isConnected s)
             (map_of (terminalSessions w_closed) ''i-2'') \<noteq> Some True"
    by (simp add: w_closed_def w_open_eval fire_def onclose_def world_ops
          addOutput_upd_def disconnect_upd_def)
  from sendCommand_not_connected_noop [OF h] h show ?thesis by simp
qed

text \<open>
  C6 as stated fails in its first part: a command for a session that was never connected
  returns the state it was given, in which there is no toast and no frame in the log of
  that session, so no error of any kind was reported.
\<close>

theorem sendCommand_reports_nothing_counterexample:
  "map_option isConnected (map_of (terminalSessions w0) ''i-1'') = Some False \<and>
   sendCommand e0 (terminalSessions w0) ''i-1'' ''ls'' w0 = w0 \<and>
   toasts w0 = [] \<and> sent w0 = [] \<and>
   map_option output_log (map_of (terminalSessions w0) ''i-1'') = Some []"
  by (simp add: example_data sendCommand_def)

subsection \<open>C7: duplicating a session\<close>

text \<open>
  C7 (as amended).  Duplicating an existing session \<open>x\<close> at clock reading \<open>t\<close> registers,
  under the identifier \<open>x_duplicate_t\<close>, a session with an empty output log, no pending
  command, no socket and the state not connected.  That identifier differs from \<open>x\<close>,
  and it is the identifier of another duplication only when that one duplicates the
  same session at the same clock reading.  When the identifier is not a key of the
  registry, the session is a new entry, appended after all others; when it is a key
  already, the entry of that key is replaced and the registry has the keys it had.  In
  both cases the entry of \<open>x\<close> and every entry other than that of the identifier are
  left as they were, and no socket is constructed, written to or closed.
\<close>

theorem duplicateSession_entry:
  assumes "map_of snap x = Some s"
  shows "duplicate_id x (now e) \<noteq> x \<and>
         (duplicate_id x (now e) = duplicate_id y u \<longleftrightarrow> x = y \<and> now e = u) \<and>
         map_of (terminalSessions (duplicateSession e snap x w)) (duplicate_id x (now e)) =
           Some (s\<lparr>instanceId := duplicate_id x (now e), isConnected := False,
                   output_log := [], currentCommand := [], ws := None, isSelected := False\<rparr>) \<and>
         (duplicate_id x (now e) \<notin> fst ` set (terminalSessions w) \<longrightarrow>
            terminalSessions (duplicateSession e snap x w) =
              terminalSessions w @
                [(duplicate_id x (now e),
                  s\<lparr>instanceId := duplicate_id x (now e), isConnected := False,
                    output_log := [], currentCommand := [], ws := None, isSelected := False\<rparr>)]) \<and>
         (duplicate_id x (now e) \<in> fst ` set (terminalSessions w) \<longrightarrow>
            map fst (terminalSessions (duplicateSession e snap x w)) =
              map fst (terminalSessions w)) \<and>
         map_of (terminalSessions (duplicateSession e snap x w)) x = map_of (terminalSessions w) x \<and>
         (\<forall>z. z \<noteq> duplicate_id x (now e) \<longrightarrow>
            map_of (terminalSessions (duplicateSession e snap x w)) z = map_of (terminalSessions w) z) \<and>
         sockets (duplicateSession e snap x w) = sockets w \<and>
         sent (duplicateSession e snap x w) = sent w \<and>
         closes (duplicateSession e snap x w) = closes w"
proof -
  let ?n = "duplicate_id x (now e)"
  let ?new = "s\<lparr>instanceId := ?n, isConnected := False, output_log := [],
                currentCommand := [], ws := None, isSelected := False\<rparr>"
  have ts: "terminalSessions (duplicateSession e snap x w) =
              AList.update ?n ?new (terminalSessions w)"
    using assms by (simp add: duplicateSession_def world_ops Let_def)
  have other: "sockets (duplicateSession e snap x w) = sockets w \<and>
               sent (duplicateSession e snap x w) = sent w \<and>
               closes (duplicateSession e snap x w) = closes w"
    using assms by (simp add: duplicateSession_def world_ops Let_def)
  have neq: "?n \<noteq> x" by (rule duplicate_id_neq)
  have inj: "?n = duplicate_id y u \<longleftrightarrow> x = y \<and> now e = u" by (rule duplicate_id_inj)
  have new: "map_of (AList.update ?n ?new (terminalSessions w)) ?n = Some ?new"
    by (simp add: AList.update_conv')
  have fresh: "?n \<notin> fst ` set (terminalSessions w) \<longrightarrow>
                 AList.update ?n ?new (terminalSessions w) = terminalSessions w @ [(?n, ?new)]"
    by (simp add: update_fresh)
  have present: "?n \<in> fst ` set (terminalSessions w) \<longrightarrow>
                   map fst (AList.update ?n ?new (terminalSessions w)) =
                     map fst (terminalSessions w)"
    by (simp add: AList.update_keys)
  have frame: "\<forall>z. z \<noteq> ?n \<longrightarrow>
                 map_of (AList.update ?n ?new (terminalSessions w)) z =
                   map_of (terminalSessions w) z"
    by (simp add: AList.update_conv')
  from frame neq have same: "map_of (AList.update ?n ?new (terminalSessions w)) x =
                               map_of (terminalSessions w) x"
    by (simp add: AList.update_conv')
  show ?thesis
    unfolding ts using neq inj new fresh present same frame other by blast
qed

theorem duplicateSession_entry_witness:
  "map_of (terminalSessions w_open) ''i-1'' \<noteq> None \<and>
   duplicate_id ''i-1'' (now e0) = ''i-1_duplicate_7'' \<and>
   duplicate_id ''i-1'' (now e0) \<noteq> ''i-1'' \<and>
   duplicate_id ''i-1'' (now e0) \<noteq> duplicate_id ''i-1'' 8 \<and>
   duplicate_id ''i-1'' (now e0) \<noteq> duplicate_id ''i-2'' 7 \<and>
   duplicate_id ''i-1'' (now e0) \<notin> fst ` set (terminalSessions w_open) \<and>
   map fst (terminalSessions (duplicateSession e0 (terminalSessions w_open) ''i-1'' w_open)) =
     [''i-1'', ''i-2'', ''i-1_duplicate_7''] \<and>
   map_option output_log (map_of (terminalSessions
      (duplicateSession e0 (terminalSessions w_open) ''i-1'' w_open)) ''i-1_duplicate_7'')
     = Some [] \<and>
   map_option isConnected (map_of (terminalSessions
      (duplicateSession e0 (terminalSessions w_open) ''i-1'' w_open)) ''i-1_duplicate_7'')
     = Some False \<and>
   map_of (terminalSessions (duplicateSession e0 (terminalSessions w_open) ''i-1'' w_open)) ''i-1'' =
     map_of (terminalSessions w_open) ''i-1'' \<and>
   ''i-2'' \<noteq> ''i-1_duplicate_7'' \<and>
   map_of (terminalSessions (duplicateSession e0 (terminalSessions w_open) ''i-1'' w_open)) ''i-2'' =
     map_of (terminalSessions w_open) ''i-2'' \<and>
   map_of (terminalSessions w_dup_open) ''i-1'' \<noteq> None \<and>
   duplicate_id ''i-1'' (now e0) \<in> fst ` set (terminalSessions w_dup_open) \<and>
   map fst (terminalSessions (duplicateSession e0 (terminalSessions w_dup_open) ''i-1'' w_dup_open)) =
     map fst (terminalSessions w_dup_open)"
proof -
  let ?d = "duplicateSession e0 (terminalSessions w_open) ''i-1'' w_open"
  let ?d' = "duplicateSession e0 (terminalSessions w_dup_open) ''i-1'' w_dup_open"
  obtain s where h: "map_of (terminalSessions w_open) ''i-1'' = Some s"
    by (simp add: w_open_eval)
  obtain s' where h': "map_of (terminalSessions w_dup_open) ''i-1'' = Some s'"
    by (simp add: w_dup_open_eval)
  have n: "duplicate_id ''i-1'' (now e0) = ''i-1_duplicate_7''"
    by (simp add: duplicate_id_def e0_def string_of_nat.simps digit_def)
  have c: "now e0 = 7" by (simp add: e0_def)
  note A = duplicateSession_entry [OF h, of e0 "''i-1''" 8 w_open]
  note B = duplicateSession_entry [OF h, of e0 "''i-2''" 7 w_open]
  note C = duplicateSession_entry [OF h', of e0 "''i-1''" 7 w_dup_open]
  note A2 = A [THEN conjunct2]
  note A3 = A2 [THEN conjunct2]
  note A4 = A3 [THEN conjunct2]
  note A5 = A4 [THEN conjunct2]
  note A6 = A5 [THEN conjunct2]
  note A7 = A6 [THEN conjunct2, THEN conjunct1]
  note C5 = C [THEN conjunct2, THEN conjunct2, THEN conjunct2, THEN conjunct2, THEN conjunct1]
  have g1: "map_of (terminalSessions w_open) ''i-1'' \<noteq> None" using h by simp
  have g2: "duplicate_id ''i-1'' (now e0) \<noteq> ''i-1''" by (rule A [THEN conjunct1])
  have g3: "duplicate_id ''i-1'' (now e0) \<noteq> duplicate_id ''i-1'' 8"
    using A2 [THEN conjunct1] c by simp
  have g4: "duplicate_id ''i-1'' (now e0) \<noteq> duplicate_id ''i-2'' 7"
    using B [THEN conjunct2, THEN conjunct1] by simp
  have g5: "duplicate_id ''i-1'' (now e0) \<notin> fst ` set (terminalSessions w_open)"
    unfolding n by (simp add: w_open_eval)
  have app: "terminalSessions ?d =
      terminalSessions w_open @
        [(duplicate_id ''i-1'' (now e0),
          s\<lparr>instanceId := duplicate_id ''i-1'' (now e0), isConnected := False,
            output_log := [], currentCommand := [], ws := None, isSelected := False\<rparr>)]"
    by (rule A4 [THEN conjunct1, THEN mp, OF g5])
  have g6: "map fst (terminalSessions ?d) = [''i-1'', ''i-2'', ''i-1_duplicate_7'']"
    unfolding app n by (simp add: w_open_eval)
  have new: "map_of (terminalSessions ?d) (duplicate_id ''i-1'' (now e0)) =
      Some (s\<lparr>instanceId := duplicate_id ''i-1'' (now e0), isConnected := False,
              output_log := [], currentCommand := [], ws := None, isSelected := False\<rparr>)"
    by (rule A3 [THEN conjunct1])
  have g7: "map_option output_log (map_of (terminalSessions ?d) ''i-1_duplicate_7'') = Some []"
    using new unfolding n by simp
  have g8: "map_option isConnected (map_of (terminalSessions ?d) ''i-1_duplicate_7'') = Some False"
    using new unfolding n by simp
  have g9: "map_of (terminalSessions ?d) ''i-1'' = map_of (terminalSessions w_open) ''i-1''"
    by (rule A6 [THEN conjunct1])
  have g10: "''i-2'' \<noteq> ''i-1_duplicate_7''" by simp
  have g11: "map_of (terminalSessions ?d) ''i-2'' = map_of (terminalSessions w_open) ''i-2''"
    using A7 [THEN spec, of "''i-2''"] g10 unfolding n by simp
  have g12: "map_of (terminalSessions w_dup_open) ''i-1'' \<noteq> None" using h' by simp
  have g13: "duplicate_id ''i-1'' (now e0) \<in> fst ` set (terminalSessions w_dup_open)"
    unfolding n by (simp add: w_dup_open_eval)
  have g14: "map fst (terminalSessions ?d') = map fst (terminalSessions w_dup_open)"
    by (rule C5 [THEN mp, OF g13])
  show ?thesis
    by (intro conjI) (fact g1 n g2 g3 g4 g5 g6 g7 g8 g9 g10 g11 g12 g13 g14)+
qed

text \<open>
  C7 as stated fails: in the example view where the duplicate made at clock reading 7 is
  connected on socket 0, duplicating the first session again at the same clock reading
  yields the identifier that this duplicate has.  No session is added; the connected
  duplicate loses its log, its state and its socket, and the socket is not closed.
\<close>

theorem duplicateSession_overwrites_counterexample:
  "map fst (terminalSessions w_dup_open) = [''i-1'', ''i-2'', ''i-1_duplicate_7''] \<and>
   map_option ws (map_of (terminalSessions w_dup_open) ''i-1_duplicate_7'') = Some (Some 0) \<and>
   map_option isConnected (map_of (terminalSessions w_dup_open) ''i-1_duplicate_7'') = Some True \<and>
   map_option (length \<circ> output_log) (map_of (terminalSessions w_dup_open) ''i-1_duplicate_7'') =
     Some 1 \<and>
   duplicate_id ''i-1'' (now e0) = ''i-1_duplicate_7'' \<and>
   map fst (terminalSessions (duplicateSession e0 (terminalSessions w_dup_open) ''i-1'' w_dup_open)) =
     [''i-1'', ''i-2'', ''i-1_duplicate_7''] \<and>
   map_option ws (map_of (terminalSessions
      (duplicateSession e0 (terminalSessions w_dup_open) ''i-1'' w_dup_open)) ''i-1_duplicate_7'') =
     Some None \<and>
   map_option output_log (map_of (terminalSessions
      (duplicateSession e0 (terminalSessions w_dup_open) ''i-1'' w_dup_open)) ''i-1_duplicate_7'') =
     Some [] \<and>
   closes (duplicateSession e0 (terminalSessions w_dup_open) ''i-1'' w_dup_open) = []"
  by (simp add: w_dup_open_eval example_data duplicateSession_def duplicate_id_def
        setTerminalSessions_def add_toast_def Let_def string_of_nat.simps digit_def)

subsection \<open>C8: a failing socket\<close>

text \<open>
  C8.  An error or close event on the socket of session \<open>x\<close> changes the entry of \<open>x\<close>
  only: one frame is appended to its log (an error frame for an error, a system frame
  for a close), it is marked not connected and its socket is cleared.  Every other
  entry, the order of the registry, the sockets, and the messages and close calls made
  so far are left as they were.
\<close>

theorem socket_failure_is_local:
  assumes "k < length (sockets w)" and "ev = Error \<or> ev = Close"
  shows "(\<forall>y. y \<noteq> h_instanceId (sockets w ! k) \<longrightarrow>
            map_of (terminalSessions (fire e k ev w)) y = map_of (terminalSessions w) y) \<and>
         map fst (terminalSessions (fire e k ev w)) = map fst (terminalSessions w) \<and>
         (\<forall>s. map_of (terminalSessions w) (h_instanceId (sockets w ! k)) = Some s \<longrightarrow>
            map_of (terminalSessions (fire e k ev w)) (h_instanceId (sockets w ! k)) =
              Some (s\<lparr>output_log := output_log s @
                        [\<lparr>timestamp = localeTime e,
                          otype = (if ev = Error then ''error'' else ''system''),
                          content = Some (if ev = Error then ''WebSocket connection error''
                                          else ''Connection closed''),
                          out_instanceId = h_instanceId (sockets w ! k)\<rparr>],
                      isConnected := False, ws := None\<rparr>)) \<and>
         sockets (fire e k ev w) = sockets w \<and> sent (fire e k ev w) = sent w \<and>
         closes (fire e k ev w) = closes w \<and> toasts (fire e k ev w) = toasts w"
  using assms
  by (auto simp: fire_def onerror_def onclose_def world_ops Let_def
        addOutput_upd_other addOutput_upd_same addOutput_upd_keys
        disconnect_upd_other disconnect_upd_same disconnect_upd_keys)

theorem socket_failure_is_local_witness:
  "1 < length (sockets w_open) \<and> h_instanceId (sockets w_open ! 1) = ''i-2'' \<and>
   ''i-1'' \<noteq> ''i-2'' \<and>
   map_of (terminalSessions (fire e0 1 Close w_open)) ''i-1'' =
     map_of (terminalSessions w_open) ''i-1'' \<and>
   map_option isConnected (map_of (terminalSessions w_open) ''i-1'') = Some True \<and>
   map_option isConnected (map_of (terminalSessions w_open) ''i-2'') = Some True \<and>
   map_option isConnected (map_of (terminalSessions (fire e0 1 Close w_open)) ''i-2'') = Some False \<and>
   closes (fire e0 1 Close w_open) = closes w_open"
proof -
  have h1: "1 < length (sockets w_open)" by (simp add: w_open_eval)
  have h2: "(Close :: event) = Error \<or> (Close :: event) = Close" by simp
  have h3: "h_instanceId (sockets w_open ! 1) = ''i-2''" by (simp add: w_open_eval)
  obtain s where h4: "map_of (terminalSessions w_open) ''i-2'' = Some s \<and> isConnected s"
    by (simp add: w_open_eval)
  have h5: "map_option isConnected (map_of (terminalSessions w_open) ''i-1'') = Some True"
    by (simp add: w_open_eval)
  from socket_failure_is_local [OF h1 h2, of e0] h1 h3 h4 h5 show ?thesis by simp
qed

subsection \<open>C9: the launch parameter\<close>

text \<open>
  C9 (as amended).  With a launch parameter and a non-empty inventory, the initialising
  effect replaces the registry by one fresh, unconnected session for every identifier
  that occurs in the inventory and is listed in the parameter: identifiers listed but
  absent from the inventory get no session, and an identifier listed twice gets one.
  When the identifiers of the inventory are pairwise distinct, the keys are the listed
  inventory identifiers in inventory order.  One call of \<^verbatim>\<open>connectToInstance\<close> is
  scheduled for every selected inventory entry; no socket is constructed and nothing is
  sent by the effect itself.
\<close>

theorem initEffect_one_session_per_listed_inventory_id:
  assumes "allInstances \<noteq> []"
  shows "fst ` set (terminalSessions (initEffect snap (Some p) allInstances w)) =
           {ec2_instanceId i | i. i \<in> set allInstances \<and> ec2_instanceId i \<in> set (split_comma p)} \<and>
         distinct (map fst (terminalSessions (initEffect snap (Some p) allInstances w))) \<and>
         (\<forall>k s. map_of (terminalSessions (initEffect snap (Some p) allInstances w)) k = Some s \<longrightarrow>
            (\<exists>i \<in> set allInstances. ec2_instanceId i = k \<and> k \<in> set (split_comma p) \<and>
                                      s = newSession i)) \<and>
         (distinct (map ec2_instanceId allInstances) \<longrightarrow>
            map fst (terminalSessions (initEffect snap (Some p) allInstances w)) =
              filter (\<lambda>k. k \<in> set (split_comma p)) (map ec2_instanceId allInstances)) \<and>
         map snd (timers (initEffect snap (Some p) allInstances w)) =
           map snd (timers w) @
           filter (\<lambda>k. k \<in> set (split_comma p)) (map ec2_instanceId allInstances) \<and>
         sockets (initEffect snap (Some p) allInstances w) = sockets w \<and>
         sent (initEffect snap (Some p) allInstances w) = sent w"
proof -
  let ?sel = "filter (\<lambda>i. ec2_instanceId i \<in> set (split_comma p)) allInstances"
  have ts: "terminalSessions (initEffect snap (Some p) allInstances w) = setEach ?sel []"
    using assms by (simp add: initEffect_def Let_def split_comma_nonempty setTerminalSessions_def)
  have tm: "timers (initEffect snap (Some p) allInstances w) =
              timers w @ map (\<lambda>i. (snap, ec2_instanceId i)) ?sel"
    using assms by (simp add: initEffect_def Let_def split_comma_nonempty setTerminalSessions_def)
  have rest: "sockets (initEffect snap (Some p) allInstances w) = sockets w \<and>
              sent (initEffect snap (Some p) allInstances w) = sent w"
    by (simp add: initEffect_def Let_def setTerminalSessions_def)
  have k: "fst ` set (setEach ?sel []) =
             {ec2_instanceId i | i. i \<in> set allInstances \<and> ec2_instanceId i \<in> set (split_comma p)}"
    by (auto simp: keys_setEach)
  have d: "distinct (map fst (setEach ?sel []))"
    by (simp add: distinct_setEach)
  have m: "\<forall>k s. map_of (setEach ?sel []) k = Some s \<longrightarrow>
            (\<exists>i \<in> set allInstances. ec2_instanceId i = k \<and> k \<in> set (split_comma p) \<and>
                                      s = newSession i)"
  proof (intro allI impI)
    fix k s assume "map_of (setEach ?sel []) k = Some s"
    from map_of_setEach [OF this]
    show "\<exists>i \<in> set allInstances. ec2_instanceId i = k \<and> k \<in> set (split_comma p) \<and>
                                      s = newSession i"
      by auto
  qed
  have o: "distinct (map ec2_instanceId allInstances) \<longrightarrow>
            map fst (setEach ?sel []) =
              filter (\<lambda>k. k \<in> set (split_comma p)) (map ec2_instanceId allInstances)"
  proof
    assume "distinct (map ec2_instanceId allInstances)"
    then have "distinct (map ec2_instanceId ?sel)"
      by (simp add: distinct_map_filter)
    then have "setEach ?sel [] = [] @ map (\<lambda>i. (ec2_instanceId i, newSession i)) ?sel"
      by (intro setEach_distinct_ids) simp
    then show "map fst (setEach ?sel []) =
              filter (\<lambda>k. k \<in> set (split_comma p)) (map ec2_instanceId allInstances)"
      by (simp add: filter_map comp_def)
  qed
  have t: "map snd (timers w @ map (\<lambda>i. (snap, ec2_instanceId i)) ?sel) =
           map snd (timers w) @
           filter (\<lambda>k. k \<in> set (split_comma p)) (map ec2_instanceId allInstances)"
    by (simp add: filter_map comp_def)
  show ?thesis
    unfolding ts tm using k d m o t rest by blast
qed

theorem initEffect_one_session_per_listed_inventory_id_witness:
  "[inst1, inst2] \<noteq> [] \<and> distinct (map ec2_instanceId [inst1, inst2]) \<and>
   split_comma ''i-2,i-1'' = [''i-2'', ''i-1''] \<and>
   map fst (terminalSessions (initEffect [] (Some ''i-2,i-1'') [inst1, inst2] w0)) = [''i-1'', ''i-2''] \<and>
   map snd (timers (initEffect [] (Some ''i-2,i-1'') [inst1, inst2] w0)) = [''i-1'', ''i-2''] \<and>
   sockets (initEffect [] (Some ''i-2,i-1'') [inst1, inst2] w0) = []"
proof -
  have h1: "[inst1, inst2] \<noteq> []" by simp
  have h2: "distinct (map ec2_instanceId [inst1, inst2])" by (simp add: inst1_def inst2_def)
  have h3: "split_comma ''i-2,i-1'' = [''i-2'', ''i-1'']" by simp
  have h4: "map ec2_instanceId [inst1, inst2] = [''i-1'', ''i-2'']"
    by (simp add: inst1_def inst2_def)
  have h5: "timers w0 = [] \<and> sockets w0 = []" by (simp add: w0_def)
  from initEffect_one_session_per_listed_inventory_id [OF h1, of "[]" "''i-2,i-1''" w0]
    h1 h2 h3 h4 h5
  show ?thesis by simp
qed

text \<open>
  C9 as stated fails: two identifiers are listed, the second is not in the inventory,
  and the effect makes one session and schedules one connection.
\<close>

theorem initEffect_unknown_id_counterexample:
  "split_comma ''i-1,i-9'' = [''i-1'', ''i-9''] \<and>
   map fst (terminalSessions (initEffect [] (Some ''i-1,i-9'') [inst1, inst2] w0)) = [''i-1''] \<and>
   map snd (timers (initEffect [] (Some ''i-1,i-9'') [inst1, inst2] w0)) = [''i-1'']"
  by (simp add: example_data initEffect_def setTerminalSessions_def Let_def)

subsection \<open>C10: a command for a connected session\<close>

text \<open>
  C10.  When \<^verbatim>\<open>sendCommand\<close> reads a session \<open>x\<close> that is connected and holds socket
  \<open>k\<close>, and \<open>x\<close> is registered, then the log of \<open>x\<close> grows by exactly one input frame
  whose content is \<^verbatim>\<open>$ \<close> followed by the command, the pending command of \<open>x\<close> becomes
  empty, exactly one command message is sent, on socket \<open>k\<close>, and every other session,
  the order of the registry and the sockets are left as they were.
\<close>

theorem sendCommand_connected_effect:
  assumes "map_of snap x = Some s0" and "ws s0 = Some k" and "isConnected s0"
    and "map_of (terminalSessions w) x = Some s"
  shows "map_of (terminalSessions (sendCommand e snap x c w)) x =
           Some (s\<lparr>output_log := output_log s @
                     [\<lparr>timestamp = localeTime e, otype = ''input'',
                       content = Some (''$ '' @ c), out_instanceId = x\<rparr>],
                   currentCommand := []\<rparr>) \<and>
         sent (sendCommand e snap x c w) = sent w @ [(k, Command c x)] \<and>
         (\<forall>y. y \<noteq> x \<longrightarrow>
            map_of (terminalSessions (sendCommand e snap x c w)) y = map_of (terminalSessions w) y) \<and>
         map fst (terminalSessions (sendCommand e snap x c w)) = map fst (terminalSessions w) \<and>
         sockets (sendCommand e snap x c w) = sockets w \<and>
         closes (sendCommand e snap x c w) = closes w"
  using assms
  by (auto simp: sendCommand_def world_ops Let_def AList.update_conv'
        addOutput_upd_other addOutput_upd_same addOutput_upd_keys update_keys_present)

theorem sendCommand_connected_effect_witness:
  "map_option ws (map_of (terminalSessions w_open) ''i-1'') = Some (Some 0) \<and>
   map_option isConnected (map_of (terminalSessions w_open) ''i-1'') = Some True \<and>
   sent (sendCommand e0 (terminalSessions w_open) ''i-1'' ''ls'' w_open) =
     sent w_open @ [(0, Command ''ls'' ''i-1'')] \<and>
   map_option currentCommand (map_of (terminalSessions
      (sendCommand e0 (terminalSessions w_open) ''i-1'' ''ls'' w_open)) ''i-1'') = Some [] \<and>
   map_option (last \<circ> output_log) (map_of (terminalSessions
      (sendCommand e0 (terminalSessions w_open) ''i-1'' ''ls'' w_open)) ''i-1'') =
     Some \<lparr>timestamp = ''10:00:00'', otype = ''input'', content = Some ''$ ls'',
           out_instanceId = ''i-1''\<rparr> \<and>
   ''i-2'' \<noteq> ''i-1'' \<and>
   map_of (terminalSessions (sendCommand e0 (terminalSessions w_open) ''i-1'' ''ls'' w_open)) ''i-2'' =
     map_of (terminalSessions w_open) ''i-2''"
proof -
  obtain s where h1: "map_of (terminalSessions w_open) ''i-1'' = Some s"
    and h2: "ws s = Some 0" and h3: "isConnected s"
    by (simp add: w_open_eval)
  have h4: "localeTime e0 = ''10:00:00''" by (simp add: e0_def)
  from sendCommand_connected_effect [OF h1 h2 h3 h1, of e0 "''ls''"] h1 h2 h3 h4
  show ?thesis by simp
qed

end
